theory Spec2Isabelle
  imports Complex_Main
begin

section \<open>Values, column labels and tables\<close>

text \<open>
  The Python values that occur in the tables of this program: strings, numbers and the
  missing value (\<open>NaN\<close> / \<open>None\<close>, which pandas treats alike). Python compares \<open>1\<close> and
  \<open>1.0\<close> equal and hashes them alike, so all numbers are one constructor; a float is
  read as the real number it denotes.
\<close>

datatype val = Str string | Num real | NaN

text \<open>
  A pandas column label: a string, or an integer position when the frame was built from
  an array without column names (the default \<open>RangeIndex\<close>).
\<close>

datatype label = Name string | Pos nat

datatype error =
    ValueError string
  | KeyError string
  | IndexError
  | LoadError

text \<open>
  A \<open>pandas.DataFrame\<close>: its column labels and its rows. A frame is well formed when the
  labels are distinct and every row has one cell per label.
\<close>

record frame =
  columns :: "label list"
  rows :: "val list list"


text \<open>
  What \<open>fit\<close> and \<open>transform\<close> receive: an object with a \<open>columns\<close> attribute (a
  DataFrame), or a two-dimensional numpy array, given by its column count \<open>X.shape[1]\<close>
  and its rows.
\<close>

datatype table_input = DataFrame frame | ndarray nat "val list list"

fun index_of :: "'a list \<Rightarrow> 'a \<Rightarrow> nat" where
  "index_of [] x = 0"
| "index_of (y # ys) x = (if y = x then 0 else Suc (index_of ys x))"

text \<open>\<open>df[col]\<close> for a label of the frame: the cells of that column, top to bottom.\<close>

definition getitem :: "frame \<Rightarrow> label \<Rightarrow> val list" where
  "getitem df col = map (\<lambda>r. r ! index_of (columns df) col) (rows df)"

text \<open>\<open>df[col] = s\<close> for a label of the frame and a series with one cell per row.\<close>

definition setitem :: "frame \<Rightarrow> label \<Rightarrow> val list \<Rightarrow> frame" where
  "setitem df col s =
     df\<lparr>rows := map2 (\<lambda>r v. r[index_of (columns df) col := v]) (rows df) s\<rparr>"

text \<open>
  \<open>Series.value_counts().to_dict()\<close>: the number of occurrences of each distinct value,
  missing values left out (\<open>dropna=True\<close> is the default).
\<close>

fun value_counts :: "val list \<Rightarrow> (val \<rightharpoonup> int)" where
  "value_counts [] = Map.empty"
| "value_counts (v # vs) =
     (let m = value_counts vs
      in if v = NaN then m
         else m(v \<mapsto> (case m v of None \<Rightarrow> 1 | Some c \<Rightarrow> c + 1)))"

text \<open>
  \<open>Series.map(d)\<close> for a dict \<open>d\<close>: a value that is not a key becomes \<open>NaN\<close>.
  \<open>Series.fillna(c)\<close> puts \<open>c\<close> in place of every missing value.
\<close>

definition series_map :: "(val \<rightharpoonup> int) \<Rightarrow> val list \<Rightarrow> val list" where
  "series_map d s = map (\<lambda>v. case d v of None \<Rightarrow> NaN | Some n \<Rightarrow> Num (of_int n)) s"

definition fillna :: "real \<Rightarrow> val list \<Rightarrow> val list" where
  "fillna c s = map (\<lambda>v. if v = NaN then Num c else v) s"

section \<open>The frequency encoder (script/utils.py)\<close>

text \<open>
  The attributes of the class; \<open>frequency_maps\<close> and \<open>feature_names_in\<close> are the
  source's \<open>frequency_maps_\<close> and \<open>feature_names_in_\<close>.
\<close>

record FrequencyEncoder =
  handle_unknown :: string
  frequency_maps :: "label \<rightharpoonup> (val \<rightharpoonup> int)"
  feature_names_in :: "label list option"

text \<open>\<open>FrequencyEncoder.__init__\<close>\<close>

definition FrequencyEncoder_init :: "string \<Rightarrow> FrequencyEncoder" where
  "FrequencyEncoder_init hu =
     \<lparr>handle_unknown = hu, frequency_maps = Map.empty, feature_names_in = None\<rparr>"

text \<open>Python's \<open>str(i)\<close> for a natural number, used in \<open>f'feature_{i}'\<close>.\<close>

fun str_nat :: "nat \<Rightarrow> string" where
  "str_nat n =
     (if n < 10 then [''0123456789'' ! n]
      else str_nat (n div 10) @ [''0123456789'' ! (n mod 10)])"

definition feature_name :: "nat \<Rightarrow> label" where
  "feature_name i = Name (''feature_'' @ str_nat i)"

text \<open>
  The frame \<open>fit\<close> works on and the feature names it records: a DataFrame as it is, an
  array through \<open>pd.DataFrame(X)\<close>, whose labels are the positions \<open>0, 1, ...\<close>.
\<close>

fun fit_frame :: "table_input \<Rightarrow> frame" where
  "fit_frame (DataFrame X) = X"
| "fit_frame (ndarray n rs) = \<lparr>columns = map Pos [0..<n], rows = rs\<rparr>"

fun fit_names :: "table_input \<Rightarrow> label list" where
  "fit_names (DataFrame X) = columns X"
| "fit_names (ndarray n rs) = map feature_name [0..<n]"

text \<open>
  \<open>FrequencyEncoder.fit\<close>: the loop stores one table per column of the frame under the
  column's label; the dict of tables is not emptied first.
\<close>

definition fit :: "table_input \<Rightarrow> FrequencyEncoder \<Rightarrow> FrequencyEncoder" where
  "fit X self =
     (let df = fit_frame X
      in self\<lparr>feature_names_in := Some (fit_names X),
              frequency_maps :=
                fold (\<lambda>col fm. fm(col \<mapsto> value_counts (getitem df col)))
                     (columns df) (frequency_maps self)\<rparr>)"

text \<open>
  The frame \<open>transform\<close> works on: a copy of a DataFrame, or
  \<open>pd.DataFrame(X, columns=self.feature_names_in_)\<close> for an array. With
  \<open>columns=None\<close> pandas numbers the columns; with a list of another length than the
  array's column count it raises \<open>ValueError\<close>.
\<close>

fun transform_frame :: "FrequencyEncoder \<Rightarrow> table_input \<Rightarrow> error + frame" where
  "transform_frame self (DataFrame X) = Inr X"
| "transform_frame self (ndarray n rs) =
     (case feature_names_in self of
        None \<Rightarrow> Inr \<lparr>columns = map Pos [0..<n], rows = rs\<rparr>
      | Some names \<Rightarrow>
          if length names = n then Inr \<lparr>columns = names, rows = rs\<rparr>
          else Inl (ValueError ''Shape of passed values does not match the columns''))"

text \<open>One round of the loop of \<open>transform\<close>, for the column \<open>col\<close>.\<close>

definition transform_column :: "FrequencyEncoder \<Rightarrow> label \<Rightarrow> frame \<Rightarrow> frame" where
  "transform_column self col df =
     (case frequency_maps self col of
        None \<Rightarrow> df
      | Some frequency_map \<Rightarrow>
          if handle_unknown self = ''zero''
          then setitem df col (fillna 0 (series_map frequency_map (getitem df col)))
          else setitem df col (fillna 1 (series_map frequency_map (getitem df col))))"

text \<open>\<open>FrequencyEncoder.transform\<close>; the result is \<open>df.values\<close>, the rows of the frame.\<close>

definition transform :: "FrequencyEncoder \<Rightarrow> table_input \<Rightarrow> error + val list list" where
  "transform self X =
     (case transform_frame self X of
        Inl e \<Rightarrow> Inl e
      | Inr df \<Rightarrow> Inr (rows (fold (transform_column self) (columns df) df)))"

section \<open>Configuration (script/config.py)\<close>

definition ENABLE_CACHING :: bool where
  "ENABLE_CACHING = True"

definition EXPECTED_FEATURES :: "string list" where
  "EXPECTED_FEATURES =
     [''brokertitle'', ''type'', ''beds'', ''bath'', ''propertysqft'', ''sublocality'']"

definition PRICE_RANGES :: "(string \<times> real) list" where
  "PRICE_RANGES = [(''budget'', 400000), (''mid'', 1000000), (''luxury'', 2000000)]"

section \<open>Model loading and prediction (script/predict.py)\<close>

text \<open>
  The trained model is an opaque artifact: \<open>model.predict\<close> takes a frame and returns
  one number per row, or raises. It is modelled as a function, so inference itself is
  taken to be deterministic. The metadata is a nested dict, of which the program reads
  \<open>metadata['model_info']['name']\<close> and
  \<open>metadata.get('data_info', {}).get('selected_features', ...)\<close>; \<open>None\<close> stands for
  an absent key.
\<close>

type_synonym model = "frame \<Rightarrow> error + real list"

record metadata =
  model_info_name :: "string option"
  selected_features :: "string list option"

text \<open>
  The two files on disk at \<open>MODEL_PATH\<close> and \<open>METADATA_PATH\<close>; \<open>None\<close> is a file
  that \<open>joblib.load\<close> cannot load.
\<close>

record artifacts =
  MODEL_PATH :: "model option"
  METADATA_PATH :: "metadata option"

definition joblib_load :: "'a option \<Rightarrow> error + 'a" where
  "joblib_load file = (case file of None \<Rightarrow> Inl LoadError | Some x \<Rightarrow> Inr x)"

text \<open>The singleton \<open>ModelCache\<close>, with its attributes \<open>_model\<close> and \<open>_metadata\<close>.\<close>

record ModelCache =
  cached_model :: "model option"
  cached_metadata :: "metadata option"

text \<open>
  \<open>ModelCache._load_model\<close>: both attributes are assigned before the log line reads
  \<open>metadata['model_info']['name']\<close>; any exception is logged and raised again, and
  what was assigned before it stays assigned.
\<close>

definition load_model :: "artifacts \<Rightarrow> ModelCache \<Rightarrow> error option \<times> ModelCache" where
  "load_model disk self =
     (case joblib_load (MODEL_PATH disk) of
        Inl e \<Rightarrow> (Some e, self)
      | Inr m \<Rightarrow>
          (let self1 = self\<lparr>cached_model := Some m\<rparr>
           in case joblib_load (METADATA_PATH disk) of
                Inl e \<Rightarrow> (Some e, self1)
              | Inr md \<Rightarrow>
                  (let self2 = self1\<lparr>cached_metadata := Some md\<rparr>
                   in case model_info_name md of
                        None \<Rightarrow> (Some (KeyError ''model_info''), self2)
                      | Some name \<Rightarrow> (None, self2))))"

text \<open>
  \<open>ModelCache.get_model_and_metadata\<close>. When \<open>_load_model\<close> returns without raising,
  both attributes are set, so the last branch is never taken.
\<close>

definition get_model_and_metadata ::
  "artifacts \<Rightarrow> ModelCache \<Rightarrow> (error + model \<times> metadata) \<times> ModelCache" where
  "get_model_and_metadata disk self =
     (let (raised, self') =
            (if cached_model self = None \<or> cached_metadata self = None
             then load_model disk self else (None, self))
      in case raised of
           Some e \<Rightarrow> (Inl e, self')
         | None \<Rightarrow>
             (case (cached_model self', cached_metadata self') of
                (Some m, Some md) \<Rightarrow> (Inr (m, md), self')
              | _ \<Rightarrow> (Inl LoadError, self')))"

text \<open>\<open>load_model_and_metadata\<close>; the global \<open>_model_cache\<close> is passed as \<open>cache\<close>.\<close>

definition load_model_and_metadata ::
  "artifacts \<Rightarrow> ModelCache \<Rightarrow> (error + model \<times> metadata) \<times> ModelCache" where
  "load_model_and_metadata disk cache =
     (if ENABLE_CACHING then get_model_and_metadata disk cache
      else (case joblib_load (MODEL_PATH disk) of
              Inl e \<Rightarrow> (Inl e, cache)
            | Inr m \<Rightarrow>
                (case joblib_load (METADATA_PATH disk) of
                   Inl e \<Rightarrow> (Inl e, cache)
                 | Inr md \<Rightarrow> (Inr (m, md), cache))))"

text \<open>
  A Python dict from labels to values, as the list of its items in insertion order
  (the keys of a dict are distinct). \<open>pd.DataFrame([d])\<close> is the one-row frame whose
  labels are the keys.
\<close>

type_synonym record_dict = "(label \<times> val) list"

definition DataFrame_of_record :: "record_dict \<Rightarrow> frame" where
  "DataFrame_of_record d = \<lparr>columns = map fst d, rows = [map snd d]\<rparr>"

text \<open>\<open>df[labels]\<close> for a list of labels: \<open>KeyError\<close> when one of them is no column.\<close>

definition select_columns :: "frame \<Rightarrow> label list \<Rightarrow> error + frame" where
  "select_columns df ls =
     (if list_all (\<lambda>l. l \<in> set (columns df)) ls
      then Inr \<lparr>columns = ls,
                rows = map (\<lambda>r. map (\<lambda>l. r ! index_of (columns df) l) ls) (rows df)\<rparr>
      else Inl (KeyError ''not in index''))"

text \<open>
  How an f-string prints a list of strings: \<open>['bath', 'beds']\<close>. (Python quotes this
  way every string that has no quote, backslash or unprintable character in it, as is
  the case of the feature names.)
\<close>

definition repr_str :: "string \<Rightarrow> string" where
  "repr_str s = [CHR 0x27] @ s @ [CHR 0x27]"

fun join :: "string \<Rightarrow> string list \<Rightarrow> string" where
  "join sep [] = []"
| "join sep [x] = x"
| "join sep (x # y # ys) = x @ sep @ join sep (y # ys)"

definition repr_list :: "string list \<Rightarrow> string" where
  "repr_list xs = ''['' @ join '', '' (map repr_str xs) @ '']''"

text \<open>\<open>prepare_features\<close>; \<open>None\<close> is the default of \<open>expected_features\<close>.\<close>

definition prepare_features :: "record_dict \<Rightarrow> string list option \<Rightarrow> error + frame" where
  "prepare_features input_data expected_features =
     (let expected = (case expected_features of None \<Rightarrow> EXPECTED_FEATURES | Some fs \<Rightarrow> fs);
          missing_features = filter (\<lambda>f. Name f \<notin> set (map fst input_data)) expected
      in if missing_features \<noteq> []
         then Inl (ValueError (''Missing required features: '' @ repr_list missing_features))
         else select_columns (DataFrame_of_record input_data) (map Name expected))"

text \<open>
  The state of the serving process: the model cache, and the frames on which
  \<open>model.predict\<close> has been invoked so far, oldest first.
\<close>

record process =
  cache :: ModelCache
  predict_calls :: "frame list"

text \<open>\<open>np.expm1\<close>, read over the real numbers.\<close>

definition expm1 :: "real \<Rightarrow> real" where
  "expm1 x = exp x - 1"

text \<open>
  \<open>predict_price\<close>; \<open>use_log_target\<close> is \<open>True\<close> when the caller leaves it out.
\<close>

definition predict_price ::
  "artifacts \<Rightarrow> process \<Rightarrow> record_dict \<Rightarrow> bool \<Rightarrow> (error + real) \<times> process" where
  "predict_price disk s input_data use_log_target =
     (case load_model_and_metadata disk (cache s) of
        (Inl e, c) \<Rightarrow> (Inl e, s\<lparr>cache := c\<rparr>)
      | (Inr (model, md), c) \<Rightarrow>
          (let s1 = s\<lparr>cache := c\<rparr>
           in case prepare_features input_data None of
                Inl e \<Rightarrow> (Inl e, s1)
              | Inr input_df \<Rightarrow>
                  (let s2 = s1\<lparr>predict_calls := predict_calls s1 @ [input_df]\<rparr>
                   in case model input_df of
                        Inl e \<Rightarrow> (Inl e, s2)
                      | Inr log_prediction \<Rightarrow>
                          (case log_prediction of
                             [] \<Rightarrow> (Inl IndexError, s2)
                           | x # _ \<Rightarrow>
                               (Inr (if use_log_target then expm1 x else x), s2)))))"


text \<open>\<open>PRICE_RANGES[key]\<close>\<close>

definition price_range :: "string \<Rightarrow> error + real" where
  "price_range key =
     (case map_of PRICE_RANGES key of None \<Rightarrow> Inl (KeyError key) | Some x \<Rightarrow> Inr x)"

text \<open>\<open>get_price_category\<close>, over real-valued prices.\<close>

definition get_price_category :: "real \<Rightarrow> error + string" where
  "get_price_category price =
     (case price_range ''budget'' of
        Inl e \<Rightarrow> Inl e
      | Inr budget \<Rightarrow>
          if price < budget then Inr ''Budget-Friendly''
          else (case price_range ''luxury'' of
                  Inl e \<Rightarrow> Inl e
                | Inr luxury \<Rightarrow>
                    if price < luxury then Inr ''Mid-Range'' else Inr ''Luxury''))"


section \<open>Auxiliary notions for the statements about the encoder\<close>



section \<open>Example inputs\<close>




definition example_row_value :: "label list \<Rightarrow> val list \<Rightarrow> real" where
  "example_row_value cols r = (case drop 2 r of Num x # _ \<Rightarrow> x | _ \<Rightarrow> 0)"

definition example_model :: model where
  "example_model df = Inr (map (example_row_value (columns df)) (rows df))"

definition example_metadata :: metadata where
  "example_metadata =
     \<lparr>model_info_name = Some ''XGBoost with Frequency Encoding'', selected_features = None\<rparr>"

definition example_disk :: artifacts where
  "example_disk = \<lparr>MODEL_PATH = Some example_model, METADATA_PATH = Some example_metadata\<rparr>"

definition initial_process :: process where
  "initial_process = \<lparr>cache = \<lparr>cached_model = None, cached_metadata = None\<rparr>, predict_calls = []\<rparr>"

definition loaded_cache :: ModelCache where
  "loaded_cache = \<lparr>cached_model = Some example_model, cached_metadata = Some example_metadata\<rparr>"

definition example_record :: record_dict where
  "example_record =
     [(Name ''brokertitle'', Str ''Brokered by COMPASS''), (Name ''type'', Str ''Condo for sale''),
      (Name ''beds'', Num 2), (Name ''bath'', Num 1), (Name ''propertysqft'', Num 800),
      (Name ''sublocality'', Str ''Manhattan'')]"


definition example_data :: frame where
  "example_data =
     \<lparr>columns = map Name EXPECTED_FEATURES,
      rows = [[Str ''Brokered by COMPASS'', Str ''Condo for sale'', Num 2, Num 1, Num 800, Str ''Manhattan''],
              [Str ''Brokered by Serhant'', Str ''House for sale'', Num 3, Num 2, Num 1200, Str ''Brooklyn'']]\<rparr>"



definition later_process :: process where
  "later_process = \<lparr>cache = loaded_cache, predict_calls = [example_data]\<rparr>"



section \<open>Lists, columns and tables\<close>



lemma index_of_less: "x \<in> set xs \<Longrightarrow> index_of xs x < length xs"
  by (induction xs) auto














lemma handle_unknown_fit: "handle_unknown (fit X self) = handle_unknown self"
  by (simp add: fit_def Let_def)

lemma handle_unknown_fold_fit: "handle_unknown (fold fit Xs self) = handle_unknown self"
  by (induction Xs arbitrary: self) (simp_all add: handle_unknown_fit)








section \<open>Loading and prediction: auxiliary lemmas\<close>

lemma load_success_cached:
  assumes "load_model_and_metadata disk c = (Inr (m, md), c')"
  shows "cached_model c' = Some m \<and> cached_metadata c' = Some md"
  using assms
  by (auto simp: load_model_and_metadata_def ENABLE_CACHING_def get_model_and_metadata_def
        load_model_def joblib_load_def Let_def
      split: if_splits option.splits sum.splits prod.splits)

lemma load_cached:
  assumes "cached_model c = Some m" "cached_metadata c = Some md"
  shows "load_model_and_metadata disk c = (Inr (m, md), c)"
  using assms
  by (simp add: load_model_and_metadata_def ENABLE_CACHING_def get_model_and_metadata_def)

lemma load_again:
  assumes "load_model_and_metadata disk c = (Inr (m, md), c')"
  shows "load_model_and_metadata disk' c' = (Inr (m, md), c')"
  using load_success_cached [OF assms] load_cached by blast

lemma nth_map_snd_index_of:
  "k \<in> set (map fst d) \<Longrightarrow> map snd d ! index_of (map fst d) k = the (map_of d k)"
  by (induction d) auto

lemma prepare_features_present:
  assumes "list_all (\<lambda>f. Name f \<in> set (map fst input_data)) EXPECTED_FEATURES"
  shows "prepare_features input_data None =
     Inr \<lparr>columns = map Name EXPECTED_FEATURES,
          rows = [map (\<lambda>f. the (map_of input_data (Name f))) EXPECTED_FEATURES]\<rparr>"
proof -
  have none: "filter (\<lambda>f. Name f \<notin> set (map fst input_data)) EXPECTED_FEATURES = []"
    using assms by (simp add: list_all_iff filter_empty_conv)
  have all: "list_all (\<lambda>l. l \<in> set (map fst input_data)) (map Name EXPECTED_FEATURES)"
    using assms by (simp add: list_all_iff)
  have "map (\<lambda>l. map snd input_data ! index_of (map fst input_data) l) (map Name EXPECTED_FEATURES)
        = map (\<lambda>f. the (map_of input_data (Name f))) EXPECTED_FEATURES"
    using assms by (simp add: list_all_iff nth_map_snd_index_of del: set_map)
  then show ?thesis
    using none all by (simp add: prepare_features_def select_columns_def DataFrame_of_record_def Let_def del: set_map)
qed

lemma predict_price_loaded:
  assumes "load_model_and_metadata disk (cache s) = (Inr (model, md), c)"
  shows "predict_price disk s input_data use_log_target =
     (case prepare_features input_data None of
        Inl e \<Rightarrow> (Inl e, s\<lparr>cache := c\<rparr>)
      | Inr input_df \<Rightarrow>
          (case model input_df of
             Inl e \<Rightarrow> (Inl e, s\<lparr>cache := c, predict_calls := predict_calls s @ [input_df]\<rparr>)
           | Inr [] \<Rightarrow> (Inl IndexError, s\<lparr>cache := c, predict_calls := predict_calls s @ [input_df]\<rparr>)
           | Inr (x # xs) \<Rightarrow> (Inr (if use_log_target then expm1 x else x),
                           s\<lparr>cache := c, predict_calls := predict_calls s @ [input_df]\<rparr>)))"
  using assms by (simp add: predict_price_def Let_def split: sum.splits list.splits)





section \<open>The examples evaluated\<close>



lemma load_example:
  "load_model_and_metadata example_disk (cache initial_process) = (Inr (example_model, example_metadata), loaded_cache)"
  by (simp add: load_model_and_metadata_def ENABLE_CACHING_def get_model_and_metadata_def
        load_model_def joblib_load_def example_disk_def initial_process_def example_metadata_def
        loaded_cache_def)

lemma load_later:
  "load_model_and_metadata example_disk (cache later_process) = (Inr (example_model, example_metadata), loaded_cache)"
  by (simp add: load_cached later_process_def loaded_cache_def)






section \<open>The frequency encoder: claims\<close>

text \<open>
  C1. For every fitted encoder and every fitted column, \<open>transform\<close> maps a category
  value seen \<open>n\<close> times at fit time to \<open>n\<close>, and an unseen one to 0 (mode \<open>zero\<close>) or 1
  (mode \<open>rare\<close>). Lemma \<open>transform_fitted_value\<close> above proves this for every column of
  the transformed frame whose label received a table. When the encoder is fitted on an
  array, however, \<open>fit\<close> files the tables under the positions \<open>0, 1, ...\<close> while
  \<open>transform\<close> of an array labels the columns \<open>feature_0, feature_1, ...\<close>: no label has
  a table and the values come back as they went in. Here the table of the only column
  holds the count 2 for the value \<open>a\<close>, and \<open>transform\<close> returns \<open>a\<close>, not 2.
\<close>

theorem transform_after_ndarray_fit_unchanged:
  "map_option (\<lambda>t. t (Str ''a''))
     (frequency_maps (fit (ndarray 1 [[Str ''a''], [Str ''a'']]) (FrequencyEncoder_init ''zero''))
        (Pos 0)) = Some (Some 2)
   \<and> transform (fit (ndarray 1 [[Str ''a''], [Str ''a'']]) (FrequencyEncoder_init ''zero''))
         (ndarray 1 [[Str ''a'']]) = Inr [[Str ''a'']]"
  by (simp add: transform_def fit_def FrequencyEncoder_init_def transform_column_def
        feature_name_def getitem_def)









section \<open>Prediction: claims\<close>

text \<open>
  C2. For every price, \<open>get_price_category\<close> returns \<open>Budget-Friendly\<close> if and only if
  the price is strictly below the budget threshold (400000), \<open>Luxury\<close> if and only if
  it is at or above the luxury threshold (2000000), and \<open>Mid-Range\<close> otherwise; a price
  equal to the budget threshold is \<open>Mid-Range\<close> and a price equal to the luxury
  threshold is \<open>Luxury\<close>.
\<close>

theorem get_price_category_thresholds:
  "price_range ''budget'' = Inr 400000 \<and> price_range ''luxury'' = Inr 2000000
   \<and> (get_price_category price = Inr ''Budget-Friendly'') = (price < 400000)
   \<and> (get_price_category price = Inr ''Luxury'') = (2000000 \<le> price)
   \<and> (get_price_category price = Inr ''Mid-Range'') = (400000 \<le> price \<and> price < 2000000)
   \<and> get_price_category 400000 = Inr ''Mid-Range''
   \<and> get_price_category 2000000 = Inr ''Luxury''"
  by (auto simp: get_price_category_def price_range_def PRICE_RANGES_def)

text \<open>
  C3. For every record that has all six expected fields, with a model that loads, the
  price returned by \<open>predict_price\<close> (called as every caller does, with
  \<open>use_log_target\<close> true) is \<open>exp s - 1\<close>, where \<open>s\<close> is the single number the model
  returns on the one-row frame of the record's fields in the expected order.
\<close>

theorem predict_price_inverse_log:
  assumes "load_model_and_metadata disk (cache s) = (Inr (model, md), c)"
    and "list_all (\<lambda>f. Name f \<in> set (map fst input_data)) EXPECTED_FEATURES"
    and "model \<lparr>columns = map Name EXPECTED_FEATURES,
                rows = [map (\<lambda>f. the (map_of input_data (Name f))) EXPECTED_FEATURES]\<rparr> = Inr [x]"
  shows "fst (predict_price disk s input_data True) = Inr (exp x - 1)"
  using assms(3)
  by (simp add: predict_price_loaded [OF assms(1)] prepare_features_present [OF assms(2)] expm1_def)

text \<open>Witness for C3: the example record, on which the example model returns 2.\<close>

theorem predict_price_inverse_log_witness:
  "load_model_and_metadata example_disk (cache initial_process)
     = (Inr (example_model, example_metadata), loaded_cache)
   \<and> list_all (\<lambda>f. Name f \<in> set (map fst example_record)) EXPECTED_FEATURES
   \<and> example_model \<lparr>columns = map Name EXPECTED_FEATURES,
         rows = [map (\<lambda>f. the (map_of example_record (Name f))) EXPECTED_FEATURES]\<rparr> = Inr [2]
   \<and> fst (predict_price example_disk initial_process example_record True) = Inr (exp 2 - 1)"
proof -
  have h2: "list_all (\<lambda>f. Name f \<in> set (map fst example_record)) EXPECTED_FEATURES"
    by (simp add: EXPECTED_FEATURES_def example_record_def)
  have h3: "example_model \<lparr>columns = map Name EXPECTED_FEATURES,
         rows = [map (\<lambda>f. the (map_of example_record (Name f))) EXPECTED_FEATURES]\<rparr> = Inr [2]"
    by (simp add: example_model_def example_row_value_def EXPECTED_FEATURES_def example_record_def)
  show ?thesis
    using load_example h2 h3 predict_price_inverse_log [OF load_example h2 h3] by simp
qed






text \<open>
  C8. \<open>predict_price\<close> is deterministic: in any two states of the process in which the
  loader yields the same model and metadata, whatever requests came before, the same
  record gives the same result; and after a call the loader still yields the same model
  and metadata, so that this holds of any two calls in a row.
\<close>

theorem predict_price_deterministic:
  assumes "load_model_and_metadata disk (cache s) = (Inr (model, md), c)"
    and "load_model_and_metadata disk' (cache s') = (Inr (model, md), c')"
  shows "fst (predict_price disk s R use_log_target) = fst (predict_price disk' s' R use_log_target)
       \<and> load_model_and_metadata disk (cache (snd (predict_price disk s R use_log_target)))
           = (Inr (model, md), cache (snd (predict_price disk s R use_log_target)))"
proof -
  have "cache (snd (predict_price disk s R use_log_target)) = c"
    by (simp add: predict_price_loaded [OF assms(1)] split: sum.splits list.splits)
  then show ?thesis
    using load_again [OF assms(1)]
    by (simp add: predict_price_loaded [OF assms(1)] predict_price_loaded [OF assms(2)]
          split: sum.splits list.splits)
qed

text \<open>
  Witness for C8: the example record, predicted in the initial state of the process and
  in a state with a loaded cache and an earlier inference.
\<close>

theorem predict_price_deterministic_witness:
  "load_model_and_metadata example_disk (cache initial_process)
     = (Inr (example_model, example_metadata), loaded_cache)
   \<and> load_model_and_metadata example_disk (cache later_process)
     = (Inr (example_model, example_metadata), loaded_cache)
   \<and> fst (predict_price example_disk initial_process example_record True)
     = fst (predict_price example_disk later_process example_record True)
   \<and> load_model_and_metadata example_disk
        (cache (snd (predict_price example_disk initial_process example_record True)))
     = (Inr (example_model, example_metadata),
        cache (snd (predict_price example_disk initial_process example_record True)))"
  using load_example load_later
    predict_price_deterministic [OF load_example load_later, of example_record True]
  by (intro conjI) (erule conjunct1 conjunct2 | assumption)+

end
